theory Spec2Isabelle
  imports Complex_Main "HOL-Library.Word"
begin

unbundle bit_operations_syntax

section \<open>ProjectSettings (src/ProjectSettings.h)\<close>

text \<open>
  A C++ \<^verbatim>\<open>int\<close> is a 32-bit word, read as two's complement by \<open>sint\<close>.
  A C++ \<^verbatim>\<open>double\<close> is its IEEE-754 binary64 bit pattern: the accessors of the
  playback speed only store and load the value, they never compute with it.
\<close>

type_synonym cint = "32 word"
type_synonym double = "64 word"
type_synonym NumericFormatSymbol = string
type_synonym wxString = string

text \<open>The anonymous enum of namespace \<^verbatim>\<open>ToolCodes\<close>: enumerators count from 0.\<close>

definition selectTool :: cint where "selectTool = 0"
definition envelopeTool :: cint where "envelopeTool = 1"
definition drawTool :: cint where "drawTool = 2"
definition zoomTool :: cint where "zoomTool = 3"
definition multiTool :: cint where "multiTool = 4"
definition numTools :: cint where "numTools = 5"
definition firstTool :: cint where "firstTool = selectTool"
definition lastTool :: cint where "lastTool = multiTool"

definition is_tool_code :: "cint \<Rightarrow> bool" where
  "is_tool_code t = (t \<in> {selectTool, envelopeTool, drawTool, zoomTool, multiTool})"

text \<open>
  The data members of class \<^verbatim>\<open>ProjectSettings\<close>, in declaration order. The reference
  \<^verbatim>\<open>mProject\<close> to the owning project is left out: no accessor of the header reads it.
\<close>

record ProjectSettings =
  mSelectionFormat :: NumericFormatSymbol
  mFrequencySelectionFormatName :: NumericFormatSymbol
  mBandwidthSelectionFormatName :: NumericFormatSymbol
  mAudioTimeFormat :: NumericFormatSymbol
  mSoloPref :: wxString
  mPlaySpeed :: double
  mSnapTo :: cint
  mCurrentTool :: cint
  mTracksFitVerticallyZoomed :: bool
  mShowId3Dialog :: bool
  mIsSyncLocked :: bool
  mEmptyCanBeDirty :: bool
  mShowSplashScreen :: bool

text \<open>The accessors whose bodies the header gives.\<close>

definition GetTracksFitVerticallyZoomed :: "ProjectSettings \<Rightarrow> bool" where
  "GetTracksFitVerticallyZoomed s = mTracksFitVerticallyZoomed s"

definition SetTracksFitVerticallyZoomed :: "bool \<Rightarrow> ProjectSettings \<Rightarrow> ProjectSettings" where
  "SetTracksFitVerticallyZoomed flag s = s\<lparr>mTracksFitVerticallyZoomed := flag\<rparr>"

definition GetShowId3Dialog :: "ProjectSettings \<Rightarrow> bool" where
  "GetShowId3Dialog s = mShowId3Dialog s"

definition SetShowId3Dialog :: "bool \<Rightarrow> ProjectSettings \<Rightarrow> ProjectSettings" where
  "SetShowId3Dialog flag s = s\<lparr>mShowId3Dialog := flag\<rparr>"

definition SetTool :: "cint \<Rightarrow> ProjectSettings \<Rightarrow> ProjectSettings" where
  "SetTool tool s = s\<lparr>mCurrentTool := tool\<rparr>"

definition GetTool :: "ProjectSettings \<Rightarrow> cint" where
  "GetTool s = mCurrentTool s"

definition GetPlaySpeed :: "ProjectSettings \<Rightarrow> double" where
  "GetPlaySpeed s = mPlaySpeed s"

definition SetPlaySpeed :: "double \<Rightarrow> ProjectSettings \<Rightarrow> ProjectSettings" where
  "SetPlaySpeed v s = s\<lparr>mPlaySpeed := v\<rparr>"

definition IsSoloSimple :: "ProjectSettings \<Rightarrow> bool" where
  "IsSoloSimple s = (mSoloPref s = ''Simple'')"

definition IsSoloNone :: "ProjectSettings \<Rightarrow> bool" where
  "IsSoloNone s = (mSoloPref s = ''None'')"

definition EmptyCanBeDirty :: "ProjectSettings \<Rightarrow> bool" where
  "EmptyCanBeDirty s = mEmptyCanBeDirty s"

definition GetShowSplashScreen :: "ProjectSettings \<Rightarrow> bool" where
  "GetShowSplashScreen s = mShowSplashScreen s"

text \<open>
  Modelled from the spec: the bodies of the member functions that the header only
  declares are in ProjectSettings.cpp, which is not among the sources. By section 4.1
  of the spec the store exposes a get/set pair for each field: each setter below stores
  its argument in the field it is named for, each getter returns that field. The change
  notification that section 4.1 adds to \<^verbatim>\<open>SetSyncLock\<close> and \<^verbatim>\<open>SetSnapTo\<close> is sent
  to the owning project: it writes no data member of the instance, and the project is
  not part of the record above.
\<close>

definition IsSyncLocked :: "ProjectSettings \<Rightarrow> bool" where
  "IsSyncLocked s = mIsSyncLocked s"

text \<open>Modelled from the spec: the setter of the sync-lock flag (section 4.1).\<close>

definition SetSyncLock :: "bool \<Rightarrow> ProjectSettings \<Rightarrow> ProjectSettings" where
  "SetSyncLock flag s = s\<lparr>mIsSyncLocked := flag\<rparr>"

text \<open>Modelled from the spec: the get/set pair of the snap mode (sections 4.1 and 8).\<close>

definition SetSnapTo :: "cint \<Rightarrow> ProjectSettings \<Rightarrow> ProjectSettings" where
  "SetSnapTo snap s = s\<lparr>mSnapTo := snap\<rparr>"

definition GetSnapTo :: "ProjectSettings \<Rightarrow> cint" where
  "GetSnapTo s = mSnapTo s"

text \<open>
  Modelled from the spec: the get/set pairs of the four format-symbol selections
  (sections 3 and 4.1).
\<close>

definition SetSelectionFormat :: "NumericFormatSymbol \<Rightarrow> ProjectSettings \<Rightarrow> ProjectSettings" where
  "SetSelectionFormat format s = s\<lparr>mSelectionFormat := format\<rparr>"

definition GetSelectionFormat :: "ProjectSettings \<Rightarrow> NumericFormatSymbol" where
  "GetSelectionFormat s = mSelectionFormat s"

definition SetAudioTimeFormat :: "NumericFormatSymbol \<Rightarrow> ProjectSettings \<Rightarrow> ProjectSettings" where
  "SetAudioTimeFormat format s = s\<lparr>mAudioTimeFormat := format\<rparr>"

definition GetAudioTimeFormat :: "ProjectSettings \<Rightarrow> NumericFormatSymbol" where
  "GetAudioTimeFormat s = mAudioTimeFormat s"

definition SetFrequencySelectionFormatName ::
  "NumericFormatSymbol \<Rightarrow> ProjectSettings \<Rightarrow> ProjectSettings" where
  "SetFrequencySelectionFormatName format s = s\<lparr>mFrequencySelectionFormatName := format\<rparr>"

definition GetFrequencySelectionFormatName :: "ProjectSettings \<Rightarrow> NumericFormatSymbol" where
  "GetFrequencySelectionFormatName s = mFrequencySelectionFormatName s"

definition SetBandwidthSelectionFormatName ::
  "NumericFormatSymbol \<Rightarrow> ProjectSettings \<Rightarrow> ProjectSettings" where
  "SetBandwidthSelectionFormatName format s = s\<lparr>mBandwidthSelectionFormatName := format\<rparr>"

definition GetBandwidthSelectionFormatName :: "ProjectSettings \<Rightarrow> NumericFormatSymbol" where
  "GetBandwidthSelectionFormatName s = mBandwidthSelectionFormatName s"

text \<open>
  Modelled from the spec: the preference reload \<^verbatim>\<open>UpdatePrefs\<close>, declared in the header
  and defined in ProjectSettings.cpp. By sections 3 and 6 of the spec it refreshes the
  fields kept in the global preference store: the solo mode, the dirty-on-empty flag and
  the splash-screen flag. The three values read from the store are its arguments.
\<close>

definition UpdatePrefs :: "wxString \<Rightarrow> bool \<Rightarrow> bool \<Rightarrow> ProjectSettings \<Rightarrow> ProjectSettings" where
  "UpdatePrefs solo dirty splash s =
     s\<lparr>mSoloPref := solo, mEmptyCanBeDirty := dirty, mShowSplashScreen := splash\<rparr>"

text \<open>
  An operation on an instance: a call of any of the ten setters the header declares, or
  a preference reload. A sequence of operations runs in order on one instance. The
  constructor is defined in ProjectSettings.cpp, and the header gives \<^verbatim>\<open>mCurrentTool\<close>
  no initialiser, so a sequence may start from any state.
\<close>

datatype settings_call =
    CallSetTracksFitVerticallyZoomed bool
  | CallSetShowId3Dialog bool
  | CallSetSyncLock bool
  | CallSetSnapTo cint
  | CallSetTool cint
  | CallSetPlaySpeed double
  | CallSetSelectionFormat NumericFormatSymbol
  | CallSetAudioTimeFormat NumericFormatSymbol
  | CallSetFrequencySelectionFormatName NumericFormatSymbol
  | CallSetBandwidthSelectionFormatName NumericFormatSymbol
  | CallUpdatePrefs wxString bool bool

fun run_call :: "settings_call \<Rightarrow> ProjectSettings \<Rightarrow> ProjectSettings" where
  "run_call (CallSetTracksFitVerticallyZoomed flag) s = SetTracksFitVerticallyZoomed flag s"
| "run_call (CallSetShowId3Dialog flag) s = SetShowId3Dialog flag s"
| "run_call (CallSetSyncLock flag) s = SetSyncLock flag s"
| "run_call (CallSetSnapTo snap) s = SetSnapTo snap s"
| "run_call (CallSetTool tool) s = SetTool tool s"
| "run_call (CallSetPlaySpeed v) s = SetPlaySpeed v s"
| "run_call (CallSetSelectionFormat format) s = SetSelectionFormat format s"
| "run_call (CallSetAudioTimeFormat format) s = SetAudioTimeFormat format s"
| "run_call (CallSetFrequencySelectionFormatName format) s =
     SetFrequencySelectionFormatName format s"
| "run_call (CallSetBandwidthSelectionFormatName format) s =
     SetBandwidthSelectionFormatName format s"
| "run_call (CallUpdatePrefs solo dirty splash) s = UpdatePrefs solo dirty splash s"

fun run_calls :: "settings_call list \<Rightarrow> ProjectSettings \<Rightarrow> ProjectSettings" where
  "run_calls [] s = s"
| "run_calls (c # cs) s = run_calls cs (run_call c s)"

text \<open>
  The argument of the most recent call of \<open>SetTool\<close> in a sequence of operations, if the
  sequence has one.
\<close>

fun SetTool_arg :: "settings_call \<Rightarrow> cint option" where
  "SetTool_arg (CallSetTool tool) = Some tool"
| "SetTool_arg _ = None"

fun last_SetTool_arg :: "settings_call list \<Rightarrow> cint option" where
  "last_SetTool_arg [] = None"
| "last_SetTool_arg (c # cs) =
     (case last_SetTool_arg cs of Some tool \<Rightarrow> Some tool | None \<Rightarrow> SetTool_arg c)"

text \<open>
  Reading a binary64 bit pattern: sign bit, 11 exponent bits biased by 1023, 52 fraction
  bits. Infinities and NaNs (exponent field 2047) denote no number.
\<close>

definition double_negative :: "double \<Rightarrow> bool" where
  "double_negative d = bit d 63"

definition double_exponent :: "double \<Rightarrow> nat" where
  "double_exponent d = unat (drop_bit 52 d AND 0x7FF)"

definition double_fraction :: "double \<Rightarrow> nat" where
  "double_fraction d = unat (d AND 0xFFFFFFFFFFFFF)"

definition double_value :: "double \<Rightarrow> rat option" where
  "double_value d =
     (let sg = (if double_negative d then - 1 else 1 :: rat);
          e = double_exponent d;
          f = double_fraction d
      in if e = 2047 then None
         else if e = 0 then Some (sg * (of_nat f / 2 ^ 1074))
         else if e < 1075 then Some (sg * (of_nat (2 ^ 52 + f) / 2 ^ (1075 - e)))
         else Some (sg * (of_nat (2 ^ 52 + f) * 2 ^ (e - 1075))))"

text \<open>The literal \<^verbatim>\<open>1.5\<close>: exponent field 1023, fraction one half.\<close>

definition double_1_5 :: double where
  "double_1_5 = 0x3FF8000000000000"

text \<open>A concrete instance, with the select tool current.\<close>

definition settings0 :: ProjectSettings where
  "settings0 = \<lparr> mSelectionFormat = ''hh:mm:ss'',
      mFrequencySelectionFormatName = ''Hz'',
      mBandwidthSelectionFormatName = ''octaves'',
      mAudioTimeFormat = ''hh:mm:ss'',
      mSoloPref = ''Simple'',
      mPlaySpeed = 0,
      mSnapTo = 0,
      mCurrentTool = selectTool,
      mTracksFitVerticallyZoomed = False,
      mShowId3Dialog = True,
      mIsSyncLocked = False,
      mEmptyCanBeDirty = True,
      mShowSplashScreen = True \<rparr>"

section \<open>ThemePrefs (ThemePrefs.cpp, second part of src/widgets/HelpSystem.h)\<close>

subsection \<open>Events, message boxes and the program state the handlers act on\<close>

text \<open>
  The two custom event types of the sources: \<^verbatim>\<open>EVT_PROJECT_SETTINGS_CHANGE\<close> declared in
  ProjectSettings.h, \<^verbatim>\<open>EVT_THEME_CHANGE\<close> defined in ThemePrefs.cpp.
\<close>

datatype wxEventType = EVT_PROJECT_SETTINGS_CHANGE | EVT_THEME_CHANGE

text \<open>
  A call \<^verbatim>\<open>AudacityMessageBox(message, caption, wxOK)\<close>: every call of the file passes
  the style \<^verbatim>\<open>wxOK\<close>. A translatable string \<^verbatim>\<open>XO("...")\<close> is its source text.
\<close>

record message_box =
  message :: string
  caption :: string

datatype package_call = CallOpenPackage string | CallParsePackage

text \<open>
  What a handler can touch: the global \<^verbatim>\<open>theTheme\<close> (of a type owned by the theme
  system), the number of calls of \<^verbatim>\<open>AColor::ReInit\<close>, the events handed to
  \<^verbatim>\<open>wxTheApp->SafelyProcessEvent\<close>, the message boxes shown, and the calls made on a
  theme package, each in order.
\<close>

record 'th gui_state =
  theTheme :: 'th
  AColor_ReInit_calls :: nat
  processed_events :: "wxEventType list"
  message_boxes :: "message_box list"
  package_calls :: "package_call list"

definition AudacityMessageBox :: "string \<Rightarrow> string \<Rightarrow> 'th gui_state \<Rightarrow> 'th gui_state" where
  "AudacityMessageBox msg cap s =
     s\<lparr>message_boxes := message_boxes s @ [\<lparr>message = msg, caption = cap\<rparr>]\<rparr>"

subsection \<open>The theme system's operations\<close>

text \<open>
  The member functions of \<^verbatim>\<open>theTheme\<close> that the handlers call are defined outside the
  sources; they are parameters. \<open>ReadImageCache\<close> takes \<open>None\<close> where the source
  passes no argument. The handlers discard whatever these calls return.
\<close>

record ('th, 'ty) Theme_ops =
  LoadComponents :: "'th \<Rightarrow> 'th"
  SaveComponents :: "'th \<Rightarrow> 'th"
  ReadImageCache :: "'ty option \<Rightarrow> 'th \<Rightarrow> 'th"
  CreateImageCache :: "'th \<Rightarrow> 'th"
  WriteImageMap :: "'th \<Rightarrow> 'th"
  GetFallbackThemeType :: "'th \<Rightarrow> 'ty"
  SaveThemeAsCode :: "'th \<Rightarrow> 'th"
  WriteImageDefs :: "'th \<Rightarrow> 'th"

definition ApplyUpdatedImages :: "'th gui_state \<Rightarrow> 'th gui_state" where
  "ApplyUpdatedImages s =
     (let s1 = s\<lparr>AColor_ReInit_calls := Suc (AColor_ReInit_calls s)\<rparr>
      in s1\<lparr>processed_events := processed_events s1 @ [EVT_THEME_CHANGE]\<rparr>)"

definition OnLoadThemeComponents ::
  "('th, 'ty) Theme_ops \<Rightarrow> 'th gui_state \<Rightarrow> 'th gui_state" where
  "OnLoadThemeComponents ops s =
     ApplyUpdatedImages (s\<lparr>theTheme := LoadComponents ops (theTheme s)\<rparr>)"

definition OnSaveThemeComponents ::
  "('th, 'ty) Theme_ops \<Rightarrow> 'th gui_state \<Rightarrow> 'th gui_state" where
  "OnSaveThemeComponents ops s = s\<lparr>theTheme := SaveComponents ops (theTheme s)\<rparr>"

definition OnLoadThemeCache ::
  "('th, 'ty) Theme_ops \<Rightarrow> 'th gui_state \<Rightarrow> 'th gui_state" where
  "OnLoadThemeCache ops s =
     ApplyUpdatedImages (s\<lparr>theTheme := ReadImageCache ops None (theTheme s)\<rparr>)"

definition OnSaveThemeCache ::
  "('th, 'ty) Theme_ops \<Rightarrow> 'th gui_state \<Rightarrow> 'th gui_state" where
  "OnSaveThemeCache ops s =
     (let s1 = s\<lparr>theTheme := CreateImageCache ops (theTheme s)\<rparr>
      in s1\<lparr>theTheme := WriteImageMap ops (theTheme s1)\<rparr>)"

definition OnReadThemeInternal ::
  "('th, 'ty) Theme_ops \<Rightarrow> 'th gui_state \<Rightarrow> 'th gui_state" where
  "OnReadThemeInternal ops s =
     ApplyUpdatedImages
       (s\<lparr>theTheme :=
            ReadImageCache ops (Some (GetFallbackThemeType ops (theTheme s))) (theTheme s)\<rparr>)"

definition OnSaveThemeAsCode ::
  "('th, 'ty) Theme_ops \<Rightarrow> 'th gui_state \<Rightarrow> 'th gui_state" where
  "OnSaveThemeAsCode ops s =
     (let s1 = s\<lparr>theTheme := SaveThemeAsCode ops (theTheme s)\<rparr>
      in s1\<lparr>theTheme := WriteImageDefs ops (theTheme s1)\<rparr>)"

subsection \<open>Load Theme Package\<close>

text \<open>
  Modelled from the spec: the exception classes of lib-theme (ArchiveError.h,
  IncompatibleTheme.h) are not among the sources. Section 7 of the spec names four failure
  classes, the archive class with two sub-kinds; the two enumerators are those of the
  handler's \<^verbatim>\<open>switch\<close>. The classes are taken as unrelated by inheritance, so each
  exception meets the \<^verbatim>\<open>catch\<close> clause of its own type. \<open>other_exception\<close> is any
  exception that no clause of the handler names.
\<close>

datatype ArchiveError_Type = InvalidArchive | OperationalError

datatype exn =
    invalid_argument string
  | bad_alloc
  | IncompatibleTheme
  | ArchiveError ArchiveError_Type
  | other_exception

text \<open>
  The member functions of the local \<^verbatim>\<open>ThemePackage theme\<close> are parameters too: they
  act on the local object, returning it updated or throwing.
\<close>

record 'pkg ThemePackage_ops =
  ThemePackage_new :: 'pkg
  OpenPackage :: "string \<Rightarrow> 'pkg \<Rightarrow> exn + 'pkg"
  ParsePackage :: "'pkg \<Rightarrow> exn + 'pkg"

text \<open>
  The file dialog as the user left it: the code \<^verbatim>\<open>ShowModal\<close> returns and the chosen
  path. \<^verbatim>\<open>wxID_CANCEL\<close> and \<^verbatim>\<open>wxID_OK\<close> have the toolkit's values. The path
  is a byte string, so its conversion to UTF-8 for \<^verbatim>\<open>OpenPackage\<close> changes nothing.
\<close>

record FileDialogWrapper =
  ShowModal :: cint
  GetPath :: wxString

definition wxID_OK :: cint where "wxID_OK = 5100"
definition wxID_CANCEL :: cint where "wxID_CANCEL = 5101"

text \<open>
  The body of the \<^verbatim>\<open>try\<close> block: the exception that leaves it, if any, and the state
  reached.
\<close>

definition try_block ::
  "'pkg ThemePackage_ops \<Rightarrow> string \<Rightarrow> 'th gui_state \<Rightarrow> exn option \<times> 'th gui_state" where
  "try_block lib path s =
     (let s1 = s\<lparr>package_calls := package_calls s @ [CallOpenPackage path]\<rparr>
      in case OpenPackage lib path (ThemePackage_new lib) of
           Inl e \<Rightarrow> (Some e, s1)
         | Inr theme \<Rightarrow>
             (let s2 = s1\<lparr>package_calls := package_calls s1 @ [CallParsePackage]\<rparr>
              in case ParsePackage lib theme of
                   Inl e \<Rightarrow> (Some e, s2)
                 | Inr theme' \<Rightarrow> (None, AudacityMessageBox ''Package OK!'' ''Success!'' s2)))"

text \<open>The \<^verbatim>\<open>catch\<close> clauses, in the source's order; an exception none names escapes.\<close>

fun catch_clauses :: "exn \<Rightarrow> 'th gui_state \<Rightarrow> exn option \<times> 'th gui_state" where
  "catch_clauses (invalid_argument what) s =
     (None, AudacityMessageBox (''Error: '' @ what) ''Invalid theme'' s)"
| "catch_clauses bad_alloc s =
     (None, AudacityMessageBox ''Cannot allocate memory'' ''Memory error'' s)"
| "catch_clauses IncompatibleTheme s =
     (None, AudacityMessageBox ''Theme package incompatible with this version of Tenacity''
        ''Incompatible theme'' s)"
| "catch_clauses (ArchiveError InvalidArchive) s =
     (None, AudacityMessageBox ''Theme package invalid'' ''Invalid archive'' s)"
| "catch_clauses (ArchiveError OperationalError) s =
     (None, AudacityMessageBox ''Error while working on archive'' ''Operational error'' s)"
| "catch_clauses other_exception s = (Some other_exception, s)"

text \<open>
  The handler: the exception that escapes it, if any, and the state it leaves.
\<close>

definition OnLoadThemePackage ::
  "'pkg ThemePackage_ops \<Rightarrow> FileDialogWrapper \<Rightarrow> 'th gui_state \<Rightarrow>
   exn option \<times> 'th gui_state" where
  "OnLoadThemePackage lib fileDialog s =
     (if ShowModal fileDialog = wxID_CANCEL then (None, s)
      else case try_block lib (GetPath fileDialog) s of
             (None, s') \<Rightarrow> (None, s')
           | (Some e, s') \<Rightarrow> catch_clauses e s')"





subsection \<open>Populate and Commit\<close>

text \<open>
  Modelled from the spec: \<^verbatim>\<open>ShuttleGui\<close> (../shuttle/ShuttleGui.h) and the settings
  \<^verbatim>\<open>GUITheme()\<close> and \<^verbatim>\<open>GUIBlendThemes\<close> are not among the sources. By section 4.2
  of the spec one routine describes the bindings of stored fields to widgets and runs
  in two directions: load (from storage into the widget of each binding) and save (from
  the widget of each binding into storage). The store keeps one value under each key
  (section 6: theme name, theme-blend flag). The controls of a panel are numbered in the
  order the routine meets them; calls that lay out boxes, texts and buttons bind no
  stored field and are left out.
\<close>

datatype teShuttleMode = eIsCreatingFromPrefs | eIsSavingToPrefs

datatype setting = GUITheme | GUIBlendThemes

datatype pref_value = ChoiceValue string | BoolValue bool

record ShuttleGui =
  mShuttleMode :: teShuttleMode
  next_control :: nat
  controls :: "nat \<rightharpoonup> pref_value"
  gPrefs :: "setting \<Rightarrow> pref_value"

text \<open>
  Modelled from the spec: one binding of a stored field to the next control, the body of
  \<^verbatim>\<open>ShuttleGui::TieChoice\<close> and \<^verbatim>\<open>ShuttleGui::TieCheckBox\<close>, which are not among
  the sources. In load direction the control gets the stored value; in save direction
  the store gets the control's value, and nothing is written where the panel has no
  such control.
\<close>

definition Tie :: "setting \<Rightarrow> ShuttleGui \<Rightarrow> ShuttleGui" where
  "Tie key S =
     (case mShuttleMode S of
        eIsCreatingFromPrefs \<Rightarrow>
          S\<lparr>controls := (controls S)(next_control S \<mapsto> gPrefs S key),
            next_control := Suc (next_control S)\<rparr>
      | eIsSavingToPrefs \<Rightarrow>
          (case controls S (next_control S) of
             None \<Rightarrow> S\<lparr>next_control := Suc (next_control S)\<rparr>
           | Some v \<Rightarrow> S\<lparr>gPrefs := (gPrefs S)(key := v),
                          next_control := Suc (next_control S)\<rparr>))"

definition TieChoice :: "setting \<Rightarrow> ShuttleGui \<Rightarrow> ShuttleGui" where
  "TieChoice = Tie"

definition TieCheckBox :: "setting \<Rightarrow> ShuttleGui \<Rightarrow> ShuttleGui" where
  "TieCheckBox = Tie"

text \<open>
  \<^verbatim>\<open>ThemePrefs::PopulateOrExchange\<close>: the two bindings, in the source's order.
\<close>

definition PopulateOrExchange :: "ShuttleGui \<Rightarrow> ShuttleGui" where
  "PopulateOrExchange S = TieCheckBox GUIBlendThemes (TieChoice GUITheme S)"

text \<open>The panel's controls together with the global preference store.\<close>

record ThemePrefs =
  panel_controls :: "nat \<rightharpoonup> pref_value"
  stored :: "setting \<Rightarrow> pref_value"

definition Populate :: "ThemePrefs \<Rightarrow> ThemePrefs" where
  "Populate p =
     (let S = PopulateOrExchange
                \<lparr>mShuttleMode = eIsCreatingFromPrefs, next_control = 0,
                 controls = panel_controls p, gPrefs = stored p\<rparr>
      in p\<lparr>panel_controls := controls S, stored := gPrefs S\<rparr>)"

definition Commit :: "ThemePrefs \<Rightarrow> bool \<times> ThemePrefs" where
  "Commit p =
     (let S = PopulateOrExchange
                \<lparr>mShuttleMode = eIsSavingToPrefs, next_control = 0,
                 controls = panel_controls p, gPrefs = stored p\<rparr>
      in (True, p\<lparr>panel_controls := controls S, stored := gPrefs S\<rparr>))"

subsection \<open>Concrete inputs\<close>

definition gui0 :: "nat gui_state" where
  "gui0 = \<lparr>theTheme = 7, AColor_ReInit_calls = 0, processed_events = [],
           message_boxes = [], package_calls = []\<rparr>"

definition theme_ops0 :: "(nat, bool) Theme_ops" where
  "theme_ops0 = \<lparr>LoadComponents = (\<lambda>t. t + 1), SaveComponents = (\<lambda>t. t),
     ReadImageCache = (\<lambda>ty t. t + 2), CreateImageCache = (\<lambda>t. t),
     WriteImageMap = (\<lambda>t. t), GetFallbackThemeType = (\<lambda>t. True),
     SaveThemeAsCode = (\<lambda>t. t), WriteImageDefs = (\<lambda>t. t)\<rparr>"

text \<open>
  Package libraries over packages that are byte counts: one that opens and parses
  everything, one whose parser rejects the version, one whose opening fails on the
  archive.
\<close>

definition lib_ok :: "nat ThemePackage_ops" where
  "lib_ok = \<lparr>ThemePackage_new = 0, OpenPackage = (\<lambda>path p. Inr (length path)),
     ParsePackage = (\<lambda>p. Inr p)\<rparr>"



definition dialog_chosen :: FileDialogWrapper where
  "dialog_chosen = \<lparr>ShowModal = wxID_OK, GetPath = ''dark.zip''\<rparr>"

definition dialog_cancelled :: FileDialogWrapper where
  "dialog_cancelled = \<lparr>ShowModal = wxID_CANCEL, GetPath = []\<rparr>"

definition panel0 :: ThemePrefs where
  "panel0 = \<lparr>panel_controls = Map.empty,
     stored = (\<lambda>k. case k of GUITheme \<Rightarrow> ChoiceValue ''dark''
                            | GUIBlendThemes \<Rightarrow> BoolValue True)\<rparr>"

section \<open>Properties of ProjectSettings\<close>

lemmas tool_code_defs =
  selectTool_def envelopeTool_def drawTool_def zoomTool_def multiTool_def

lemma run_call_GetTool:
  "GetTool (run_call c s) = (case SetTool_arg c of None \<Rightarrow> GetTool s | Some tool \<Rightarrow> tool)"
  by (cases c)
     (simp_all add: GetTool_def SetTracksFitVerticallyZoomed_def SetShowId3Dialog_def
        SetSyncLock_def SetSnapTo_def SetTool_def SetPlaySpeed_def SetSelectionFormat_def
        SetAudioTimeFormat_def SetFrequencySelectionFormatName_def
        SetBandwidthSelectionFormatName_def UpdatePrefs_def)

lemma run_calls_GetTool:
  "GetTool (run_calls cs s) =
     (case last_SetTool_arg cs of None \<Rightarrow> GetTool s | Some tool \<Rightarrow> tool)"
proof (induction cs arbitrary: s)
  case Nil
  show ?case by simp
next
  case (Cons c cs)
  have "GetTool (run_calls (c # cs) s) = GetTool (run_calls cs (run_call c s))"
    by simp
  also have "\<dots> = (case last_SetTool_arg cs of
                     None \<Rightarrow> GetTool (run_call c s) | Some tool \<Rightarrow> tool)"
    by (rule Cons.IH)
  also have "\<dots> = (case last_SetTool_arg (c # cs) of
                     None \<Rightarrow> GetTool s | Some tool \<Rightarrow> tool)"
    by (simp add: run_call_GetTool split: option.split)
  finally show ?case .
qed

text \<open>
  C6. For every valid tool code \<open>t\<close> (one of \<open>selectTool\<close> through \<open>multiTool\<close>),
  \<open>SetTool t\<close> followed by \<open>GetTool\<close> on the same instance returns \<open>t\<close>.
\<close>

theorem SetTool_GetTool:
  "is_tool_code t \<Longrightarrow> GetTool (SetTool t s) = t"
  by (simp add: GetTool_def SetTool_def)

theorem SetTool_GetTool_witness:
  "is_tool_code multiTool \<and> GetTool (SetTool multiTool settings0) = multiTool"
proof -
  have valid: "is_tool_code multiTool"
    by (simp add: is_tool_code_def)
  from SetTool_GetTool [OF valid, of settings0] valid show ?thesis
    by simp
qed

text \<open>
  C3 as stated fails: \<open>SetTool\<close> stores any integer, so after \<open>SetTool 99\<close> on an instance
  whose current tool was the select tool, the current tool is no enumerated code.
\<close>

theorem SetTool_arbitrary_counterexample:
  "is_tool_code (GetTool settings0) \<and>
   \<not> is_tool_code (GetTool (run_calls [CallSetTool 99] settings0))"
  by (simp add: GetTool_def SetTool_def settings0_def is_tool_code_def tool_code_defs)

text \<open>
  C3, amended. In every state of a ProjectSettings instance reached by any sequence of
  operations, \<open>SetTool\<close> with arbitrary integer arguments among them, the current tool
  field holds the argument of the most recent call of \<open>SetTool\<close>, stored as given, or,
  when the sequence has no such call, the value the field had before the sequence. So
  the field holds one of the enumerated tool codes (\<open>selectTool\<close> through \<open>multiTool\<close>)
  exactly when that argument, or that earlier value, is one.
\<close>

theorem current_tool_after_calls:
  "GetTool (run_calls cs s) =
     (case last_SetTool_arg cs of None \<Rightarrow> GetTool s | Some tool \<Rightarrow> tool) \<and>
   is_tool_code (GetTool (run_calls cs s)) =
     (case last_SetTool_arg cs of
        None \<Rightarrow> is_tool_code (GetTool s) | Some tool \<Rightarrow> is_tool_code tool)"
proof -
  have field: "GetTool (run_calls cs s) =
      (case last_SetTool_arg cs of None \<Rightarrow> GetTool s | Some tool \<Rightarrow> tool)"
    by (rule run_calls_GetTool)
  then have "is_tool_code (GetTool (run_calls cs s)) =
      (case last_SetTool_arg cs of
         None \<Rightarrow> is_tool_code (GetTool s) | Some tool \<Rightarrow> is_tool_code tool)"
    by (simp split: option.split)
  with field show ?thesis by simp
qed

theorem current_tool_after_calls_witness:
  "last_SetTool_arg
     [CallSetTool 99, CallSetSnapTo 1, CallSetTool drawTool, CallSetSyncLock True,
      CallUpdatePrefs ''None'' False True] = Some drawTool \<and>
   GetTool (run_calls
     [CallSetTool 99, CallSetSnapTo 1, CallSetTool drawTool, CallSetSyncLock True,
      CallUpdatePrefs ''None'' False True] settings0) = drawTool \<and>
   is_tool_code (GetTool (run_calls
     [CallSetTool 99, CallSetSnapTo 1, CallSetTool drawTool, CallSetSyncLock True,
      CallUpdatePrefs ''None'' False True] settings0))"
proof -
  have arg: "last_SetTool_arg
      [CallSetTool 99, CallSetSnapTo 1, CallSetTool drawTool, CallSetSyncLock True,
       CallUpdatePrefs ''None'' False True] = Some drawTool"
    by simp
  have code: "is_tool_code drawTool"
    by (simp add: is_tool_code_def)
  from current_tool_after_calls
    [of "[CallSetTool 99, CallSetSnapTo 1, CallSetTool drawTool, CallSetSyncLock True,
          CallUpdatePrefs ''None'' False True]" settings0]
    arg code
  show ?thesis by simp
qed

lemma double_1_5_exponent: "double_exponent double_1_5 = 1023"
  by (simp add: double_1_5_def double_exponent_def)

lemma double_1_5_fraction: "double_fraction double_1_5 = 2 ^ 51"
  by (simp add: double_1_5_def double_fraction_def)

lemma double_1_5_positive: "\<not> double_negative double_1_5"
  by (simp add: double_1_5_def double_negative_def)

text \<open>
  C7. On one thread, \<open>SetPlaySpeed\<close> of the double \<open>1.5\<close> followed at once by
  \<open>GetPlaySpeed\<close> on the same instance returns exactly that double: the same bit pattern,
  which denotes the number three halves.
\<close>

theorem SetPlaySpeed_GetPlaySpeed_1_5:
  "GetPlaySpeed (SetPlaySpeed double_1_5 s) = double_1_5 \<and>
   double_value (GetPlaySpeed (SetPlaySpeed double_1_5 s)) = Some (3 / 2)"
proof -
  have load: "GetPlaySpeed (SetPlaySpeed double_1_5 s) = double_1_5"
    by (simp add: GetPlaySpeed_def SetPlaySpeed_def)
  have "double_value double_1_5 = Some (3 / 2)"
    unfolding double_value_def double_1_5_exponent double_1_5_fraction Let_def
    using double_1_5_positive by simp
  with load show ?thesis by simp
qed

section \<open>Properties of the theme handlers\<close>

text \<open>
  C2 as stated fails for the two save handlers: run on a state with no event processed
  so far, neither hands a theme-changed event to the application.
\<close>

theorem save_handlers_notify_counterexample:
  "EVT_THEME_CHANGE \<notin> set (processed_events (OnSaveThemeCache theme_ops0 gui0)) \<and>
   EVT_THEME_CHANGE \<notin> set (processed_events (OnSaveThemeComponents theme_ops0 gui0))"
  by (simp add: OnSaveThemeCache_def OnSaveThemeComponents_def gui0_def Let_def)

text \<open>
  C2, amended. Every invocation of the image-cache load handler and of the
  theme-components load handler raises one global theme-changed notification, after the
  events already processed; the image-cache save handler and the theme-components save
  handler raise no notification.
\<close>

theorem theme_changed_on_load_only:
  "processed_events (OnLoadThemeCache ops s) = processed_events s @ [EVT_THEME_CHANGE] \<and>
   processed_events (OnLoadThemeComponents ops s) = processed_events s @ [EVT_THEME_CHANGE] \<and>
   processed_events (OnSaveThemeCache ops s) = processed_events s \<and>
   processed_events (OnSaveThemeComponents ops s) = processed_events s"
  by (simp add: OnLoadThemeCache_def OnLoadThemeComponents_def OnSaveThemeCache_def
      OnSaveThemeComponents_def ApplyUpdatedImages_def Let_def)

subsection \<open>Load Theme Package\<close>


lemma try_block_succeeds:
  "fst (try_block lib path s) = None \<Longrightarrow>
   snd (try_block lib path s) =
     s\<lparr>package_calls := package_calls s @ [CallOpenPackage path, CallParsePackage],
       message_boxes :=
         message_boxes s @ [\<lparr>message = ''Package OK!'', caption = ''Success!''\<rparr>]\<rparr>"
  by (auto simp: try_block_def Let_def AudacityMessageBox_def split: sum.splits)






lemma dialog_chosen_not_cancelled: "ShowModal dialog_chosen \<noteq> wxID_CANCEL"
  by (simp add: dialog_chosen_def wxID_OK_def wxID_CANCEL_def)



lemma lib_ok_succeeds:
  "fst (try_block lib_ok (GetPath dialog_chosen) gui0) = None"
  by (simp add: try_block_def lib_ok_def Let_def)





text \<open>
  C5. In every run of the Load Theme Package handler where opening and parsing the package
  succeed, the handler returns normally having only shown the ``Package OK!'' box: the
  active theme is unchanged, no colour initialisation is run, and no event, so no
  theme-changed notification, is processed.
\<close>

theorem success_only_reports:
  assumes "ShowModal dlg \<noteq> wxID_CANCEL"
    and "fst (try_block lib (GetPath dlg) s) = None"
  shows "OnLoadThemePackage lib dlg s =
           (None, s\<lparr>package_calls :=
                      package_calls s @ [CallOpenPackage (GetPath dlg), CallParsePackage],
                    message_boxes := message_boxes s @
                      [\<lparr>message = ''Package OK!'', caption = ''Success!''\<rparr>]\<rparr>) \<and>
         theTheme (snd (OnLoadThemePackage lib dlg s)) = theTheme s \<and>
         AColor_ReInit_calls (snd (OnLoadThemePackage lib dlg s)) = AColor_ReInit_calls s \<and>
         processed_events (snd (OnLoadThemePackage lib dlg s)) = processed_events s"
proof -
  from assms(2) try_block_succeeds [OF assms(2)] have
    "try_block lib (GetPath dlg) s =
       (None, s\<lparr>package_calls :=
                  package_calls s @ [CallOpenPackage (GetPath dlg), CallParsePackage],
                message_boxes := message_boxes s @
                  [\<lparr>message = ''Package OK!'', caption = ''Success!''\<rparr>]\<rparr>)"
    by (metis prod.collapse)
  with assms(1) show ?thesis
    by (simp add: OnLoadThemePackage_def)
qed

theorem success_only_reports_witness:
  "ShowModal dialog_chosen \<noteq> wxID_CANCEL \<and>
   fst (try_block lib_ok (GetPath dialog_chosen) gui0) = None \<and>
   OnLoadThemePackage lib_ok dialog_chosen gui0 =
     (None, gui0\<lparr>package_calls := [CallOpenPackage ''dark.zip'', CallParsePackage],
                 message_boxes := [\<lparr>message = ''Package OK!'', caption = ''Success!''\<rparr>]\<rparr>) \<and>
   theTheme (snd (OnLoadThemePackage lib_ok dialog_chosen gui0)) = 7 \<and>
   processed_events (snd (OnLoadThemePackage lib_ok dialog_chosen gui0)) = []"
  using success_only_reports [OF dialog_chosen_not_cancelled lib_ok_succeeds]
    dialog_chosen_not_cancelled lib_ok_succeeds
  by (simp add: gui0_def dialog_chosen_def)

text \<open>
  C10. In every run of the Load Theme Package handler where the user cancels the file
  dialog, the handler returns at once: no exception, and the state is the state before,
  so no package was opened or parsed and no message box was shown.
\<close>

theorem cancel_returns_unchanged:
  "ShowModal dlg = wxID_CANCEL \<Longrightarrow> OnLoadThemePackage lib dlg s = (None, s)"
  by (simp add: OnLoadThemePackage_def)

theorem cancel_returns_unchanged_witness:
  "ShowModal dialog_cancelled = wxID_CANCEL \<and>
   OnLoadThemePackage lib_ok dialog_cancelled gui0 = (None, gui0) \<and>
   package_calls (snd (OnLoadThemePackage lib_ok dialog_cancelled gui0)) = [] \<and>
   message_boxes (snd (OnLoadThemePackage lib_ok dialog_cancelled gui0)) = []"
proof -
  have cancelled: "ShowModal dialog_cancelled = wxID_CANCEL"
    by (simp add: dialog_cancelled_def)
  from cancel_returns_unchanged [OF cancelled, of lib_ok gui0] cancelled show ?thesis
    by (simp add: gui0_def)
qed

subsection \<open>Populate and Commit\<close>

text \<open>
  C8. For every state of the theme preferences panel and of the preference store,
  running Populate (the exchange routine in load direction) and then, the form untouched,
  Commit (the same routine in save direction) reports success and leaves every stored
  preference value as it was before the round trip.
\<close>

theorem populate_commit_round_trip:
  "fst (Commit (Populate p)) = True \<and> stored (snd (Commit (Populate p))) = stored p"
  by (simp add: Commit_def Populate_def PopulateOrExchange_def TieChoice_def
      TieCheckBox_def Tie_def Let_def)

text \<open>
  The save direction is no idle step: a control edited between Populate and Commit
  reaches the store.
\<close>

lemma commit_stores_edit:
  "stored (snd (Commit ((Populate panel0)
      \<lparr>panel_controls := (panel_controls (Populate panel0))(0 \<mapsto> ChoiceValue ''light'')\<rparr>)))
     GUITheme = ChoiceValue ''light''"
  by (simp add: Commit_def Populate_def PopulateOrExchange_def TieChoice_def
      TieCheckBox_def Tie_def Let_def panel0_def)

end
